theory Spec2Isabelle
  imports Main
begin

section \<open>Python strings\<close>

text \<open>
  A Python \<open>str\<close> is a sequence of Unicode code points; a code point is modelled as a
  natural number and a string as a list of them.  \<open>str\<close> turns an ASCII literal of the
  source into that representation.
\<close>

type_synonym pychar = nat
type_synonym pystr = "pychar list"

definition str :: "string \<Rightarrow> pystr" where
  "str s = map of_char s"

definition SPACE :: pychar where
  "SPACE = 32"

text \<open>
  \<open>isspace\<close> is the predicate \<open>Py_UNICODE_ISSPACE\<close>: it decides what \<open>\s\<close> matches in a
  \<open>str\<close> pattern, and what \<open>str.strip()\<close> and \<open>str.split()\<close> without argument treat as
  whitespace.
\<close>

definition isspace :: "pychar \<Rightarrow> bool" where
  "isspace c \<longleftrightarrow>
     (9 \<le> c \<and> c \<le> 13) \<or> (28 \<le> c \<and> c \<le> 32) \<or> c = 133 \<or> c = 160 \<or> c = 5760 \<or>
     (8192 \<le> c \<and> c \<le> 8202) \<or> c = 8232 \<or> c = 8233 \<or> c = 8239 \<or> c = 8287 \<or>
     c = 12288"

text \<open>The character class \<open>[a-z0-9?!]\<close> of the first substitution.\<close>

definition in_class :: "pychar \<Rightarrow> bool" where
  "in_class c \<longleftrightarrow> (97 \<le> c \<and> c \<le> 122) \<or> (48 \<le> c \<and> c \<le> 57) \<or> c = 63 \<or> c = 33"

text \<open>\<open>re.sub('[^a-z0-9?!]', ' ', text)\<close>: every character outside the class becomes a space.\<close>

definition sub_not_in_class :: "pystr \<Rightarrow> pystr" where
  "sub_not_in_class text = map (\<lambda>c. if in_class c then c else SPACE) text"

text \<open>
  \<open>re.sub(r'\s+', ' ', text)\<close>: every maximal run of whitespace becomes one space.
\<close>

function sub_whitespace :: "pystr \<Rightarrow> pystr" where
  "sub_whitespace [] = []"
| "sub_whitespace (c # cs) =
     (if isspace c then SPACE # sub_whitespace (dropWhile isspace cs)
      else c # sub_whitespace cs)"
  by pat_completeness auto
termination
  by (relation "measure length") (auto simp: length_dropWhile_le less_Suc_eq_le)

text \<open>\<open>str.strip()\<close>: leading and trailing whitespace removed.\<close>

definition rstrip :: "pystr \<Rightarrow> pystr" where
  "rstrip s = rev (dropWhile isspace (rev s))"

definition strip :: "pystr \<Rightarrow> pystr" where
  "strip s = rstrip (dropWhile isspace s)"

text \<open>\<open>str.split()\<close>: the maximal runs of non-whitespace, in order.\<close>

function split :: "pystr \<Rightarrow> pystr list" where
  "split s =
     (case dropWhile isspace s of
        [] \<Rightarrow> []
      | c # cs \<Rightarrow> (c # takeWhile (\<lambda>x. \<not> isspace x) cs) # split (dropWhile (\<lambda>x. \<not> isspace x) cs))"
  by pat_completeness auto
termination
proof (relation "measure length", goal_cases)
  case 1
  show ?case by simp
next
  case (2 s c cs)
  have "length (dropWhile (\<lambda>x. \<not> isspace x) cs) \<le> length cs"
    by (rule length_dropWhile_le)
  also have "length cs < length (dropWhile isspace s)"
    using 2 by simp
  also have "length (dropWhile isspace s) \<le> length s"
    by (rule length_dropWhile_le)
  finally show ?case by simp
qed

declare split.simps [simp del]

text \<open>\<open>sep.join(parts)\<close>.\<close>

fun join :: "pystr \<Rightarrow> pystr list \<Rightarrow> pystr" where
  "join sep [] = []"
| "join sep [p] = p"
| "join sep (p # q # ps) = p @ sep @ join sep (q # ps)"

section \<open>Text cleaning\<close>

text \<open>
  The three steps shared by \<open>CleanText.clean_text\<close> and \<open>SentimentPredictor.clean_text\<close>.
  \<open>lower\<close> stands for the builtin \<open>str.lower\<close>, which follows the Unicode case tables
  and is taken as a parameter.
\<close>

definition lower_sub_strip :: "(pystr \<Rightarrow> pystr) \<Rightarrow> pystr \<Rightarrow> pystr" where
  "lower_sub_strip lower text = strip (sub_whitespace (sub_not_in_class (lower text)))"

text \<open>
  \<open>CleanText.clean_text\<close>.  \<open>stem\<close> is \<open>PorterStemmer.stem\<close>; \<open>do_stemming\<close> and
  \<open>stopwords\<close> are the fields of the object.
\<close>

definition clean_text ::
  "(pystr \<Rightarrow> pystr) \<Rightarrow> (pystr \<Rightarrow> pystr) \<Rightarrow> bool \<Rightarrow> pystr list \<Rightarrow> pystr \<Rightarrow> pystr" where
  "clean_text lower stem do_stemming stopwords text =
     (let text = lower_sub_strip lower text in
      if do_stemming \<or> length stopwords > 0 then
        (let parts = split text;
             parts = (if do_stemming
                      then map stem (filter (\<lambda>part. part \<notin> set stopwords) parts)
                      else filter (\<lambda>part. part \<notin> set stopwords) parts)
         in join [SPACE] parts)
      else text)"

datatype error = TypeError | AttributeError | ValueError | KeyError | IndexError
  | LangDetectException

text \<open>
  \<open>SentimentPredictor.clean_text\<close>.  The class has no attribute \<open>ps\<close>, so with
  \<open>do_stemming\<close> the comprehension raises \<open>AttributeError\<close> at its first element; on
  an empty \<open>parts\<close> it evaluates nothing and the join is the empty string.
\<close>

definition predictor_clean_text :: "(pystr \<Rightarrow> pystr) \<Rightarrow> pystr \<Rightarrow> bool \<Rightarrow> error + pystr" where
  "predictor_clean_text lower text do_stemming =
     (let text = lower_sub_strip lower text in
      if do_stemming then
        (let parts = split text in
         if parts = [] then Inr (join [SPACE] []) else Inl AttributeError)
      else Inr text)"

text \<open>A lowercasing that agrees with \<open>str.lower\<close> on ASCII strings, used at concrete inputs.\<close>

definition ascii_lower :: "pystr \<Rightarrow> pystr" where
  "ascii_lower s = map (\<lambda>c. if 65 \<le> c \<and> c \<le> 90 then c + 32 else c) s"

text \<open>A toy stemmer for concrete inputs: it drops one final \<open>s\<close>.\<close>

definition drop_s :: "pystr \<Rightarrow> pystr" where
  "drop_s w = (if w \<noteq> [] \<and> last w = 115 then butlast w else w)"

text \<open>The characters a cleaned text may contain: the class and the space.\<close>

definition clean_char :: "pychar \<Rightarrow> bool" where
  "clean_char c \<longleftrightarrow> in_class c \<or> c = SPACE"

section \<open>Values, the data frame and the process state\<close>

text \<open>
  A Python value as far as the code distinguishes them: \<open>isinstance(comment, str)\<close>
  and the methods of \<open>str\<close> are what matter.
\<close>

datatype pyval = PyStr pystr | PyInt int | PyNone

text \<open>
  A \<open>pandas.DataFrame\<close>: the column names, and the rows in order, each the index label
  with the row's values.  \<open>itertuples()\<close> yields for every row the label followed by the
  values.
\<close>

record 'i dataframe =
  columns :: "pystr list"
  rows :: "('i \<times> pyval list) list"

text \<open>
  \<open>for index, text, _, _ in ...\<close>: the tuple has the label and the values, so the
  unpacking is that of the values into three names; another number of values raises
  \<open>ValueError\<close>.
\<close>

definition unpack3 :: "pyval list \<Rightarrow> error + (pyval \<times> pyval \<times> pyval)" where
  "unpack3 cells =
     (case cells of
        [text, a, b] \<Rightarrow> Inr (text, a, b)
      | _ \<Rightarrow> Inl ValueError)"

text \<open>
  \<open>DataFrame.drop(labels=..., inplace=True)\<close>: \<open>KeyError\<close> when a label is not in
  the index, otherwise every row carrying one of the labels goes.
\<close>

definition drop_labels :: "'i list \<Rightarrow> 'i dataframe \<Rightarrow> error + 'i dataframe" where
  "drop_labels labels d =
     (if list_all (\<lambda>l. l \<in> set (map fst (rows d))) labels
      then Inr (d\<lparr>rows := filter (\<lambda>r. fst r \<notin> set labels) (rows d)\<rparr>)
      else Inl KeyError)"

text \<open>
  \<open>self.df['text'][index] = v\<close>: \<open>KeyError\<close> without a column named \<open>text\<close>;
  otherwise the value is stored in that column of every row labelled \<open>index\<close> (the
  write-through behaviour of pandas that the code relies on).
\<close>

fun position :: "'a \<Rightarrow> 'a list \<Rightarrow> nat option" where
  "position x [] = None"
| "position x (y # ys) =
     (if x = y then Some 0 else (case position x ys of None \<Rightarrow> None | Some n \<Rightarrow> Some (Suc n)))"

definition set_text :: "'i dataframe \<Rightarrow> 'i \<Rightarrow> pyval \<Rightarrow> error + 'i dataframe" where
  "set_text d index v =
     (case position (str ''text'') (columns d) of
        None \<Rightarrow> Inl KeyError
      | Some p \<Rightarrow>
          Inr (d\<lparr>rows := map (\<lambda>r. if fst r = index then (fst r, (snd r)[p := v]) else r) (rows d)\<rparr>))"

text \<open>
  What the language detector answers: a language code, or \<open>LangDetectException\<close>.
\<close>

datatype detect_outcome = Lang pystr | DetectFail

text \<open>
  What the code calls outside itself, in the order it happens, and what it prints.
\<close>

datatype event =
    Detect "int option" pystr
  | Tokenize pystr pystr bool bool nat
  | InferProduct
  | InferVideo

datatype printed =
    NonLanguageEntries nat
  | OtherLanguageEntries nat
  | SizeReduces nat nat int

text \<open>
  The state of the process: \<open>DetectorFactory.seed\<close> (\<open>None\<close> until somebody assigns
  it), the operating system's random source (\<open>entropy n\<close> is what its \<open>n\<close>-th reading
  delivers, \<open>draws\<close> counts the readings made), the calls made so far and the lines
  printed so far.
\<close>

record world =
  seed :: "int option"
  entropy :: "nat \<Rightarrow> nat"
  draws :: nat
  events :: "event list"
  stdout :: "printed list"

section \<open>Language detection\<close>

text \<open>
  \<open>get_language\<close>, the same method in both classes: \<open>return detect(text)\<close>.
  \<open>detect\<close> is the function of the \<open>langdetect\<close> package, a parameter here: it gets
  the factory's seed, the reading of the random source that an unseeded detector makes,
  and the text.  A value that is no string makes the package's first regular-expression
  substitution raise \<open>TypeError\<close>.
\<close>

definition detector_answer ::
  "(int option \<Rightarrow> nat \<Rightarrow> pystr \<Rightarrow> detect_outcome) \<Rightarrow> world \<Rightarrow> pystr \<Rightarrow> detect_outcome" where
  "detector_answer detect w s = detect (seed w) (entropy w (draws w)) s"

definition get_language ::
  "(int option \<Rightarrow> nat \<Rightarrow> pystr \<Rightarrow> detect_outcome) \<Rightarrow> world \<Rightarrow> pyval \<Rightarrow> world \<times> (error + pystr)" where
  "get_language detect w text =
     (case text of
        PyStr s \<Rightarrow>
          (w\<lparr>draws := (if seed w = None then Suc (draws w) else draws w),
             events := events w @ [Detect (seed w) s]\<rparr>,
           (case detector_answer detect w s of
              Lang code \<Rightarrow> Inr code
            | DetectFail \<Rightarrow> Inl LangDetectException))
      | _ \<Rightarrow> (w, Inl TypeError))"

section \<open>CleanText.clean\_df\<close>

text \<open>
  The loop of \<open>clean_df\<close>.  \<open>itertuples()\<close> walks the positions of the frame and reads
  each row when the loop reaches it, from the frame as the assignments made so far have
  left it; the frame is updated in place, so an exception leaves it as far as the loop
  got.  A text that is no string has no \<open>lower\<close>: \<open>AttributeError\<close>.
\<close>

fun clean_df_loop ::
  "(pystr \<Rightarrow> pystr) \<Rightarrow> (pystr \<Rightarrow> pystr) \<Rightarrow> bool \<Rightarrow> pystr list \<Rightarrow> 'i dataframe \<Rightarrow>
   nat list \<Rightarrow> 'i dataframe \<times> error option" where
  "clean_df_loop lower stem do_stemming stopwords d [] = (d, None)"
| "clean_df_loop lower stem do_stemming stopwords d (i # rest) =
     (if i < length (rows d) then
        (let r = rows d ! i in
         case unpack3 (snd r) of
           Inl e \<Rightarrow> (d, Some e)
         | Inr (text, _, _) \<Rightarrow>
             (case text of
                PyStr s \<Rightarrow>
                  (case set_text d (fst r) (PyStr (clean_text lower stem do_stemming stopwords s)) of
                     Inl e \<Rightarrow> (d, Some e)
                   | Inr d' \<Rightarrow> clean_df_loop lower stem do_stemming stopwords d' rest)
              | _ \<Rightarrow> (d, Some AttributeError)))
      else (d, None))"

definition clean_df ::
  "(pystr \<Rightarrow> pystr) \<Rightarrow> (pystr \<Rightarrow> pystr) \<Rightarrow> bool \<Rightarrow> pystr list \<Rightarrow> 'i dataframe \<Rightarrow>
   'i dataframe \<times> error option" where
  "clean_df lower stem do_stemming stopwords d =
     clean_df_loop lower stem do_stemming stopwords d [0..<length (rows d)]"

section \<open>RemoveNonEnglish\<close>

record 'i remove_non_english =
  exception_entries :: "('i \<times> pyval) list"
  other_language_entries :: "('i \<times> pyval \<times> pystr) list"
  df :: "'i dataframe"
  original_size :: nat

fun collect_loop ::
  "(int option \<Rightarrow> nat \<Rightarrow> pystr \<Rightarrow> detect_outcome) \<Rightarrow> world \<Rightarrow> 'i remove_non_english \<Rightarrow>
   ('i \<times> pyval list) list \<Rightarrow> world \<times> 'i remove_non_english \<times> error option" where
  "collect_loop detect w self [] = (w, self, None)"
| "collect_loop detect w self (r # rest) =
     (case unpack3 (snd r) of
        Inl e \<Rightarrow> (w, self, Some e)
      | Inr (text, _, _) \<Rightarrow>
          (case get_language detect w text of
             (w', Inr language) \<Rightarrow>
               (if language \<noteq> str ''en''
                then collect_loop detect w'
                       (self\<lparr>other_language_entries :=
                          other_language_entries self @ [(fst r, text, language)]\<rparr>) rest
                else collect_loop detect w' self rest)
           | (w', Inl e) \<Rightarrow>
               (if e = LangDetectException
                then collect_loop detect w'
                       (self\<lparr>exception_entries := exception_entries self @ [(fst r, text)]\<rparr>) rest
                else (w', self, Some e))))"

definition collect_non_english_content ::
  "(int option \<Rightarrow> nat \<Rightarrow> pystr \<Rightarrow> detect_outcome) \<Rightarrow> world \<Rightarrow> 'i remove_non_english \<Rightarrow>
   world \<times> 'i remove_non_english \<times> error option" where
  "collect_non_english_content detect w self =
     (case collect_loop detect w self (rows (df self)) of
        (w', self', Some e) \<Rightarrow> (w', self', Some e)
      | (w', self', None) \<Rightarrow>
          (w'\<lparr>stdout := stdout w' @
                [NonLanguageEntries (length (exception_entries self')),
                 OtherLanguageEntries (length (other_language_entries self'))]\<rparr>,
           self', None))"

definition remove :: "world \<Rightarrow> 'i remove_non_english \<Rightarrow> world \<times> 'i remove_non_english \<times> error option" where
  "remove w self =
     (case drop_labels (map fst (exception_entries self)) (df self) of
        Inl e \<Rightarrow> (w, self, Some e)
      | Inr d1 \<Rightarrow>
          (case drop_labels (map fst (other_language_entries self)) d1 of
             Inl e \<Rightarrow> (w, self\<lparr>df := d1\<rparr>, Some e)
           | Inr d2 \<Rightarrow>
               (let remove_num = int (original_size self) - int (length (rows d2))
                in (w\<lparr>stdout := stdout w @
                        [SizeReduces (length (rows d2)) (original_size self) remove_num]\<rparr>,
                    self\<lparr>df := d2\<rparr>, None))))"

text \<open>
  The constructor.  An exception leaves it at the point it is raised; the state and the
  object are returned as they are then, the frame being the caller's.
\<close>

definition RemoveNonEnglish ::
  "(int option \<Rightarrow> nat \<Rightarrow> pystr \<Rightarrow> detect_outcome) \<Rightarrow> world \<Rightarrow> 'i dataframe \<Rightarrow>
   world \<times> 'i remove_non_english \<times> error option" where
  "RemoveNonEnglish detect w d =
     (let w0 = w\<lparr>seed := Some 0\<rparr>;
          self = \<lparr>exception_entries = [], other_language_entries = [], df = d,
                  original_size = length (rows d)\<rparr>
      in case collect_non_english_content detect w0 self of
           (w1, self1, Some e) \<Rightarrow> (w1, self1, Some e)
         | (w1, self1, None) \<Rightarrow> remove w1 self1)"

section \<open>Stopwords\<close>

definition specified :: "pystr list" where
  "specified = map str [''i'', ''the'', ''and'', ''for'', ''a'', ''of'', ''to'', ''this'', ''that'',
     ''in'', ''on'', ''at'', ''so'', ''with'', ''as'', ''was'', ''is'', ''are'', ''be'', ''it'', ''have'',
     ''has'', ''you'', ''your'']"

text \<open>The apostrophe of the contracted forms is code point 39.\<close>

definition reserve :: "pystr list" where
  "reserve = map str [''not'', ''no'', ''never'', ''but'', ''only'', ''just'', ''very'', ''really'',
     ''too''] @
     [str ''don'' @ [39] @ str ''t'', str ''wasn'' @ [39] @ str ''t'', str ''didn'' @ [39] @ str ''t'',
      str ''can'' @ [39] @ str ''t'', str ''won'' @ [39] @ str ''t'']"

text \<open>
  The constructor of \<open>Stopwords\<close>, returning the field \<open>stopwords\<close>.  \<open>corpus\<close> is
  \<open>stopwords.words('english')\<close> of the \<open>nltk\<close> package; the download that precedes
  it is left out.
\<close>

definition Stopwords :: "pystr list \<Rightarrow> pystr \<Rightarrow> pystr set" where
  "Stopwords corpus stopwords_type =
     (if stopwords_type = str ''specified'' then set specified
      else if stopwords_type = str ''nltk''
      then fold (\<lambda>word stopwords. if word \<in> stopwords then stopwords - {word} else stopwords)
             reserve (set corpus)
      else {})"

section \<open>SentimentPredictor.predict\<close>

text \<open>\<open>isinstance(comment, str)\<close>.\<close>

fun isinstance_str :: "pyval \<Rightarrow> bool" where
  "isinstance_str (PyStr s) = True"
| "isinstance_str v = False"

definition labels :: "pystr list" where
  "labels = [str ''negative'', str ''neutral'', str ''positive'']"

text \<open>\<open>self.labels[i]\<close> for the index an \<open>argmax\<close> returns.\<close>

definition labels_at :: "nat \<Rightarrow> error + pystr" where
  "labels_at i = (if i < length labels then Inr (labels ! i) else Inl IndexError)"

record sentiment =
  sentiment_for_product :: pystr
  sentiment_for_video :: pystr

text \<open>
  \<open>predict\<close>.  Besides \<open>lower\<close> and \<open>detect\<close> its parameters are the tokenizer
  (text, \<open>return_tensors\<close>, \<open>truncation\<close>, \<open>padding\<close>, \<open>max_length\<close>) and, for each of the
  two models, the index \<open>torch.argmax(model(**inputs).logits, dim=1).item()\<close>.
\<close>

definition predict ::
  "(pystr \<Rightarrow> pystr) \<Rightarrow> (int option \<Rightarrow> nat \<Rightarrow> pystr \<Rightarrow> detect_outcome) \<Rightarrow>
   (pystr \<Rightarrow> pystr \<Rightarrow> bool \<Rightarrow> bool \<Rightarrow> nat \<Rightarrow> 't) \<Rightarrow> ('t \<Rightarrow> nat) \<Rightarrow> ('t \<Rightarrow> nat) \<Rightarrow>
   world \<Rightarrow> pyval \<Rightarrow> world \<times> (error + sentiment option)" where
  "predict lower detect tokenizer model_product model_video w comment =
     (case comment of
        PyStr s \<Rightarrow>
          (if strip s = [] then (w, Inr None)
           else
             (case get_language detect w (PyStr s) of
                (w1, Inl e) \<Rightarrow>
                  (if e = LangDetectException then (w1, Inr None) else (w1, Inl e))
              | (w1, Inr language) \<Rightarrow>
                  (if language \<noteq> str ''en'' then (w1, Inr None)
                   else
                     (case predictor_clean_text lower s False of
                        Inl e \<Rightarrow> (w1, Inl e)
                      | Inr c \<Rightarrow>
                          (let inputs = tokenizer c (str ''pt'') True True 128;
                               w2 = w1\<lparr>events := events w1 @ [Tokenize c (str ''pt'') True True 128]\<rparr>;
                               pred_product_id = model_product inputs;
                               w3 = w2\<lparr>events := events w2 @ [InferProduct]\<rparr>
                           in case labels_at pred_product_id of
                                Inl e \<Rightarrow> (w3, Inl e)
                              | Inr sentiment_product \<Rightarrow>
                                  (let pred_video_id = model_video inputs;
                                       w4 = w3\<lparr>events := events w3 @ [InferVideo]\<rparr>
                                   in case labels_at pred_video_id of
                                        Inl e \<Rightarrow> (w4, Inl e)
                                      | Inr sentiment_video \<Rightarrow>
                                          (w4, Inr (Some \<lparr>sentiment_for_product = sentiment_product,
                                                          sentiment_for_video = sentiment_video\<rparr>))))))))
      | _ \<Rightarrow> (w, Inl TypeError))"

section \<open>Concrete collaborators\<close>

text \<open>
  A small detector for concrete inputs.  It fails on a text without an ASCII letter,
  answers \<open>fr\<close> on a text with a character beyond ASCII, and is undecided between
  \<open>en\<close> and \<open>nl\<close> on a text shorter than ten characters: there the random number
  decides, which is the seed when there is one and the reading of the random source
  otherwise.
\<close>

definition is_letter :: "pychar \<Rightarrow> bool" where
  "is_letter c \<longleftrightarrow> (97 \<le> c \<and> c \<le> 122) \<or> (65 \<le> c \<and> c \<le> 90)"

definition toy_detect :: "int option \<Rightarrow> nat \<Rightarrow> pystr \<Rightarrow> detect_outcome" where
  "toy_detect sd e t =
     (let r = (case sd of Some k \<Rightarrow> nat (abs k) | None \<Rightarrow> e) in
      if \<not> list_ex is_letter t then DetectFail
      else if list_ex (\<lambda>c. 128 \<le> c) t then Lang (str ''fr'')
      else if length t < 10 \<and> odd r then Lang (str ''nl'')
      else Lang (str ''en''))"

definition toy_tokenizer :: "pystr \<Rightarrow> pystr \<Rightarrow> bool \<Rightarrow> bool \<Rightarrow> nat \<Rightarrow> pystr list" where
  "toy_tokenizer text return_tensors truncation padding max_length =
     (if truncation then take max_length (split text) else split text)"

definition toy_model :: "pystr list \<Rightarrow> nat" where
  "toy_model inputs = length inputs mod 3"

definition fresh_world :: world where
  "fresh_world = \<lparr>seed = None, entropy = (\<lambda>n. n), draws = 0, events = [], stdout = []\<rparr>"

definition example_frame :: "int dataframe" where
  "example_frame =
     \<lparr>columns = [str ''text'', str ''product'', str ''video''],
      rows = [(0, [PyStr (str ''This product is amazing!''), PyInt 2, PyInt 1]),
              (1, [PyStr (str ''?!''), PyInt 1, PyInt 1]),
              (2, [PyStr (str ''tr'' @ [232] @ str ''s bon produit''), PyInt 2, PyInt 2])]\<rparr>"

definition two_column_frame :: "int dataframe" where
  "two_column_frame =
     \<lparr>columns = [str ''text'', str ''label''],
      rows = [(0, [PyStr (str ''This product is amazing!''), PyInt 2])]\<rparr>"

definition empty_two_column_frame :: "int dataframe" where
  "empty_two_column_frame = \<lparr>columns = [str ''text'', str ''label''], rows = []\<rparr>"

definition two_column_reviews :: "int dataframe" where
  "two_column_reviews =
     \<lparr>columns = [str ''text'', str ''label''],
      rows = [(0, [PyStr (str ''This product is amazing!''), PyInt 2]),
              (1, [PyStr (str ''?!''), PyInt 1])]\<rparr>"

definition missing_text_frame :: "int dataframe" where
  "missing_text_frame =
     \<lparr>columns = [str ''text'', str ''product'', str ''video''],
      rows = [(0, [PyStr (str ''This product is amazing!''), PyInt 2, PyInt 1]),
              (1, [PyNone, PyInt 1, PyInt 1])]\<rparr>"

definition text_second_frame :: "int dataframe" where
  "text_second_frame =
     \<lparr>columns = [str ''product'', str ''text'', str ''video''],
      rows = [(0, [PyStr (str ''Positive''), PyStr (str ''tr'' @ [232] @ str ''s bon produit''), PyInt 1])]\<rparr>"

section \<open>The classification of the rows\<close>

text \<open>
  What the interface of the detector promises: with a seed, the answer does not depend
  on the random source.
\<close>

definition seeded_deterministic :: "(int option \<Rightarrow> nat \<Rightarrow> pystr \<Rightarrow> detect_outcome) \<Rightarrow> bool" where
  "seeded_deterministic detect \<longleftrightarrow> (\<forall>k e e' t. detect (Some k) e t = detect (Some k) e' t)"

text \<open>A frame in which every row has a value for every column.\<close>

definition well_formed :: "'i dataframe \<Rightarrow> bool" where
  "well_formed d \<longleftrightarrow> list_all (\<lambda>r. length (snd r) = length (columns d)) (rows d)"

text \<open>A row of three values, the first a string; that string.\<close>

definition text_row :: "'i \<times> pyval list \<Rightarrow> bool" where
  "text_row r \<longleftrightarrow>
     (case unpack3 (snd r) of
        Inr (text, _, _) \<Rightarrow> isinstance_str text
      | Inl _ \<Rightarrow> False)"

definition row_text :: "'i \<times> pyval list \<Rightarrow> pystr" where
  "row_text r = (case snd r of PyStr t # _ \<Rightarrow> t | _ \<Rightarrow> [])"

text \<open>The answer of the detector, seeded with 0 as the constructor does, on the text of a row.\<close>

definition row_language ::
  "(int option \<Rightarrow> nat \<Rightarrow> pystr \<Rightarrow> detect_outcome) \<Rightarrow> 'i \<times> pyval list \<Rightarrow> detect_outcome" where
  "row_language detect r = detect (Some 0) 0 (row_text r)"

definition english :: "(int option \<Rightarrow> nat \<Rightarrow> pystr \<Rightarrow> detect_outcome) \<Rightarrow> 'i \<times> pyval list \<Rightarrow> bool" where
  "english detect r \<longleftrightarrow> row_language detect r = Lang (str ''en'')"

definition undetectable :: "(int option \<Rightarrow> nat \<Rightarrow> pystr \<Rightarrow> detect_outcome) \<Rightarrow> 'i \<times> pyval list \<Rightarrow> bool" where
  "undetectable detect r \<longleftrightarrow> row_language detect r = DetectFail"

definition other_language :: "(int option \<Rightarrow> nat \<Rightarrow> pystr \<Rightarrow> detect_outcome) \<Rightarrow> 'i \<times> pyval list \<Rightarrow> bool" where
  "other_language detect r \<longleftrightarrow>
     (case row_language detect r of Lang code \<Rightarrow> code \<noteq> str ''en'' | DetectFail \<Rightarrow> False)"

definition code_of :: "(int option \<Rightarrow> nat \<Rightarrow> pystr \<Rightarrow> detect_outcome) \<Rightarrow> 'i \<times> pyval list \<Rightarrow> pystr" where
  "code_of detect r = (case row_language detect r of Lang code \<Rightarrow> code | DetectFail \<Rightarrow> [])"

section \<open>Properties of the string operations\<close>

lemma isspace_SPACE: "isspace SPACE"
  by (simp add: isspace_def SPACE_def)

lemma in_class_not_space: "in_class c \<Longrightarrow> \<not> isspace c"
  by (auto simp: in_class_def isspace_def)

lemma clean_char_space: "clean_char c \<Longrightarrow> isspace c \<Longrightarrow> c = SPACE"
  by (auto simp: clean_char_def in_class_not_space)

lemma clean_sub_not_in_class: "list_all clean_char (sub_not_in_class s)"
  by (induction s) (auto simp: sub_not_in_class_def clean_char_def)

lemma sub_not_in_class_id: "list_all clean_char s \<Longrightarrow> sub_not_in_class s = s"
  by (induction s) (auto simp: sub_not_in_class_def clean_char_def)

lemma list_all_dropWhile: "list_all P s \<Longrightarrow> list_all P (dropWhile Q s)"
  by (induction s) auto

lemma list_all_takeWhile: "list_all P s \<Longrightarrow> list_all P (takeWhile Q s)"
  by (induction s) auto

lemma clean_sub_whitespace: "list_all clean_char s \<Longrightarrow> list_all clean_char (sub_whitespace s)"
proof (induction s rule: sub_whitespace.induct)
  case 1
  show ?case by simp
next
  case (2 c cs)
  then show ?case
    by (auto simp: clean_char_def list_all_dropWhile)
qed

lemma list_all_rstrip: "list_all P s \<Longrightarrow> list_all P (rstrip s)"
  by (simp add: rstrip_def list_all_dropWhile)

lemma list_all_strip: "list_all P s \<Longrightarrow> list_all P (strip s)"
  by (simp add: strip_def list_all_rstrip list_all_dropWhile)

lemma clean_lower_sub_strip: "list_all clean_char (lower_sub_strip lower text)"
  by (simp add: lower_sub_strip_def list_all_strip clean_sub_whitespace clean_sub_not_in_class)

lemma list_all_split:
  "list_all P s \<Longrightarrow> list_all (list_all (\<lambda>c. P c \<and> \<not> isspace c)) (split s)"
proof (induction s rule: split.induct)
  case (1 s)
  show ?case
  proof (cases "dropWhile isspace s")
    case Nil
    show ?thesis by (simp add: split.simps [of s] Nil)
  next
    case (Cons c cs)
    have all: "list_all P (c # cs)"
      using 1(2) list_all_dropWhile [of P s isspace] by (simp add: Cons)
    have c: "\<not> isspace c"
      using hd_dropWhile [of isspace s] by (simp add: Cons)
    have word: "list_all (\<lambda>c. P c \<and> \<not> isspace c) (takeWhile (\<lambda>x. \<not> isspace x) cs)"
      using all by (induction cs) auto
    have "list_all P (dropWhile (\<lambda>x. \<not> isspace x) cs)"
      using all by (simp add: list_all_dropWhile)
    then have "list_all (list_all (\<lambda>c. P c \<and> \<not> isspace c)) (split (dropWhile (\<lambda>x. \<not> isspace x) cs))"
      by (rule 1(1) [OF Cons])
    then show ?thesis
      using all c word by (simp add: split.simps [of s] Cons)
  qed
qed

lemma list_all_join:
  "list_all Q sep \<Longrightarrow> list_all (list_all Q) ps \<Longrightarrow> list_all Q (join sep ps)"
  by (induction sep ps rule: join.induct) auto

lemma list_all_mono: "list_all P xs \<Longrightarrow> (\<And>x. P x \<Longrightarrow> Q x) \<Longrightarrow> list_all Q xs"
  by (induction xs) auto

lemma list_all_filter: "list_all P xs \<Longrightarrow> list_all P (filter Q xs)"
  by (induction xs) auto

lemma clean_words: "list_all (list_all in_class) (split (lower_sub_strip lower text))"
proof -
  have "list_all (list_all (\<lambda>c. clean_char c \<and> \<not> isspace c)) (split (lower_sub_strip lower text))"
    by (rule list_all_split) (rule clean_lower_sub_strip)
  then show ?thesis
  proof (rule list_all_mono)
    fix w :: pystr
    assume "list_all (\<lambda>c. clean_char c \<and> \<not> isspace c) w"
    then show "list_all in_class w"
      by (rule list_all_mono) (auto simp: clean_char_def isspace_SPACE)
  qed
qed

lemma lower_sub_strip_Nil: "lower [] = [] \<Longrightarrow> lower_sub_strip lower [] = []"
  by (simp add: lower_sub_strip_def strip_def rstrip_def sub_not_in_class_def)

lemma split_Nil: "split [] = []"
  by (simp add: split.simps)

lemma split_Cons:
  "split (c # cs) =
     (if isspace c then split cs
      else (c # takeWhile (\<lambda>x. \<not> isspace x) cs) # split (dropWhile (\<lambda>x. \<not> isspace x) cs))"
  by (simp add: split.simps [of "c # cs"] split.simps [of cs])

lemma list_all_map: "list_all P xs \<Longrightarrow> (\<And>x. P x \<Longrightarrow> Q (f x)) \<Longrightarrow> list_all Q (map f xs)"
  by (induction xs) auto

text \<open>The equations that evaluate the string operations on a concrete text.\<close>

lemmas eval_text =
  clean_text_def predictor_clean_text_def lower_sub_strip_def str_def ascii_lower_def
  sub_not_in_class_def in_class_def SPACE_def isspace_def strip_def rstrip_def drop_s_def
  split_Nil split_Cons

subsection \<open>The fixed points of the whitespace substitution\<close>

lemma sub_whitespace_no_leading:
  "s = [] \<or> \<not> isspace (hd s) \<Longrightarrow> sub_whitespace s = [] \<or> \<not> isspace (hd (sub_whitespace s))"
  by (cases s) auto

lemma dropWhile_no_leading: "dropWhile P s = [] \<or> \<not> P (hd (dropWhile P s))"
  using hd_dropWhile [of P s] by blast

lemma dropWhile_id: "s = [] \<or> \<not> P (hd s) \<Longrightarrow> dropWhile P s = s"
  by (cases s) auto

lemma sub_whitespace_idem: "sub_whitespace (sub_whitespace s) = sub_whitespace s"
proof (induction s rule: sub_whitespace.induct)
  case 1
  show ?case by simp
next
  case (2 c cs)
  show ?case
  proof (cases "isspace c")
    case True
    let ?t = "sub_whitespace (dropWhile isspace cs)"
    have "?t = [] \<or> \<not> isspace (hd ?t)"
      by (rule sub_whitespace_no_leading) (rule dropWhile_no_leading)
    then have "dropWhile isspace ?t = ?t"
      by (rule dropWhile_id)
    then show ?thesis
      using True 2(1) by (simp add: isspace_SPACE)
  next
    case False
    then show ?thesis using 2(2) by simp
  qed
qed

lemma fixed_tail: "sub_whitespace (c # cs) = c # cs \<Longrightarrow> sub_whitespace cs = cs"
proof (cases "isspace c")
  case True
  assume "sub_whitespace (c # cs) = c # cs"
  with True have "sub_whitespace (dropWhile isspace cs) = cs" by simp
  then have "sub_whitespace cs = sub_whitespace (sub_whitespace (dropWhile isspace cs))" by simp
  also have "\<dots> = sub_whitespace (dropWhile isspace cs)" by (rule sub_whitespace_idem)
  also have "\<dots> = cs" by fact
  finally show ?thesis .
next
  case False
  assume "sub_whitespace (c # cs) = c # cs"
  with False show ?thesis by simp
qed

lemma fixed_dropWhile: "sub_whitespace s = s \<Longrightarrow> sub_whitespace (dropWhile P s) = dropWhile P s"
proof (induction s)
  case Nil
  show ?case by simp
next
  case (Cons c cs)
  then show ?case using fixed_tail [of c cs] by simp
qed

lemma rstrip_Cons:
  "rstrip (c # cs) = (if isspace c \<and> rstrip cs = [] then [] else c # rstrip cs)"
  by (auto simp: rstrip_def dropWhile_append)

lemma rstrip_Nil: "rstrip [] = []"
  by (simp add: rstrip_def)

lemma fixed_rstrip: "sub_whitespace s = s \<Longrightarrow> sub_whitespace (rstrip s) = rstrip s"
proof (induction s)
  case Nil
  show ?case by (simp add: rstrip_Nil)
next
  case (Cons c cs)
  have tail: "sub_whitespace cs = cs"
    using Cons.prems by (rule fixed_tail)
  then have ih: "sub_whitespace (rstrip cs) = rstrip cs"
    by (rule Cons.IH)
  show ?case
  proof (cases "isspace c")
    case False
    then show ?thesis using ih by (simp add: rstrip_Cons)
  next
    case True
    show ?thesis
    proof (cases "rstrip cs = []")
      case True
      with \<open>isspace c\<close> show ?thesis by (simp add: rstrip_Cons)
    next
      case False
      from \<open>isspace c\<close> Cons.prems have c: "c = SPACE" and cs: "sub_whitespace (dropWhile isspace cs) = cs"
        by simp_all
      have "sub_whitespace (dropWhile isspace cs) = [] \<or>
            \<not> isspace (hd (sub_whitespace (dropWhile isspace cs)))"
        by (rule sub_whitespace_no_leading) (rule dropWhile_no_leading)
      then have "cs = [] \<or> \<not> isspace (hd cs)"
        by (simp add: cs)
      moreover have "cs \<noteq> []"
        using False by (auto simp: rstrip_Nil)
      ultimately obtain d ds where d: "cs = d # ds" "\<not> isspace d"
        by (cases cs) auto
      then have "rstrip cs = d # rstrip ds"
        by (simp add: rstrip_Cons)
      then show ?thesis
        using ih d \<open>isspace c\<close> c by (simp add: rstrip_Cons)
    qed
  qed
qed

lemma fixed_strip: "sub_whitespace s = s \<Longrightarrow> sub_whitespace (strip s) = strip s"
  by (simp add: strip_def fixed_rstrip fixed_dropWhile)

lemma rstrip_no_leading: "s = [] \<or> \<not> isspace (hd s) \<Longrightarrow> rstrip s = [] \<or> \<not> isspace (hd (rstrip s))"
  by (cases s) (auto simp: rstrip_Cons rstrip_Nil)

lemma rstrip_idem: "rstrip (rstrip s) = rstrip s"
  by (induction s) (auto simp: rstrip_Cons rstrip_Nil)

lemma strip_idem: "strip (strip s) = strip s"
proof -
  let ?t = "dropWhile isspace s"
  have "rstrip ?t = [] \<or> \<not> isspace (hd (rstrip ?t))"
    by (rule rstrip_no_leading) (rule dropWhile_no_leading)
  then have "dropWhile isspace (rstrip ?t) = rstrip ?t"
    by (rule dropWhile_id)
  then show ?thesis
    by (simp add: strip_def rstrip_idem)
qed

lemma lower_sub_strip_fixed:
  assumes "\<And>t. list_all clean_char t \<Longrightarrow> lower t = t"
  shows "lower_sub_strip lower (lower_sub_strip lower x) = lower_sub_strip lower x"
proof -
  let ?y = "lower_sub_strip lower x"
  have clean: "list_all clean_char ?y"
    by (rule clean_lower_sub_strip)
  have "sub_whitespace ?y = ?y"
    unfolding lower_sub_strip_def by (rule fixed_strip) (rule sub_whitespace_idem)
  moreover have "strip ?y = ?y"
    unfolding lower_sub_strip_def by (rule strip_idem)
  moreover have "lower ?y = ?y"
    using clean by (rule assms)
  moreover have "sub_not_in_class ?y = ?y"
    using clean by (rule sub_not_in_class_id)
  ultimately show ?thesis
    by (simp add: lower_sub_strip_def [of lower ?y])
qed

lemma ascii_lower_clean: "list_all clean_char t \<Longrightarrow> ascii_lower t = t"
  by (induction t) (auto simp: ascii_lower_def clean_char_def in_class_def SPACE_def)

lemma drop_s_in_class: "list_all in_class w \<Longrightarrow> list_all clean_char (drop_s w)"
proof -
  assume w: "list_all in_class w"
  have "list_all in_class (butlast w)"
    using w by (induction w) auto
  then have "list_all in_class (drop_s w)"
    using w by (simp add: drop_s_def)
  then show ?thesis
    by (rule list_all_mono) (simp add: clean_char_def)
qed

section \<open>The cleaned text\<close>

text \<open>
  C3.  Whatever the input, the text that \<open>clean_text\<close> returns consists of the
  characters \<open>a-z\<close>, \<open>0-9\<close>, \<open>?\<close>, \<open>!\<close> and the space, and the empty text is cleaned to
  the empty text; so for \<open>CleanText.clean_text\<close> under every configuration, and for
  \<open>SentimentPredictor.clean_text\<close> whenever it returns.  What is assumed of the two
  library functions: \<open>str.lower\<close> maps the empty string to itself, and, where stemming
  is on, the stemmer maps a word over the class to a string over these characters.
\<close>

theorem clean_text_charset:
  assumes "lower [] = []"
    and "\<And>w. do_stemming \<Longrightarrow> list_all in_class w \<Longrightarrow> list_all clean_char (stem w)"
  shows "list_all clean_char (clean_text lower stem do_stemming stopwords text)
    \<and> clean_text lower stem do_stemming stopwords [] = []
    \<and> (\<forall>r. predictor_clean_text lower text flag = Inr r \<longrightarrow> list_all clean_char r)
    \<and> predictor_clean_text lower [] flag = Inr []"
proof -
  let ?parts = "filter (\<lambda>part. part \<notin> set stopwords) (split (lower_sub_strip lower text))"
  have sep: "list_all clean_char [SPACE]"
    by (simp add: clean_char_def)
  have words: "list_all (list_all in_class) ?parts"
    by (rule list_all_filter) (rule clean_words)
  have plain: "list_all (list_all clean_char) ?parts"
    using words
  proof (rule list_all_mono)
    fix w :: pystr
    assume "list_all in_class w"
    then show "list_all clean_char w"
      by (rule list_all_mono) (simp add: clean_char_def)
  qed
  have stemmed: "list_all (list_all clean_char) (map stem ?parts)" if "do_stemming"
    using words by (rule list_all_map) (rule assms(2) [OF that])
  have 1: "list_all clean_char (clean_text lower stem do_stemming stopwords text)"
    using plain stemmed sep clean_lower_sub_strip [of lower "text"]
    by (auto simp: clean_text_def Let_def intro: list_all_join)
  have 2: "clean_text lower stem do_stemming stopwords [] = []"
    by (simp add: clean_text_def Let_def lower_sub_strip_Nil [of lower, OF assms(1)] split_Nil)
  have 3: "\<forall>r. predictor_clean_text lower text flag = Inr r \<longrightarrow> list_all clean_char r"
    using clean_lower_sub_strip [of lower "text"]
    by (auto simp: predictor_clean_text_def Let_def split: if_splits)
  have 4: "predictor_clean_text lower [] flag = Inr []"
    by (simp add: predictor_clean_text_def Let_def lower_sub_strip_Nil [of lower, OF assms(1)] split_Nil)
  from 1 2 3 4 show ?thesis by simp
qed

theorem clean_text_charset_witness:
  "list_all clean_char (clean_text ascii_lower drop_s True [str ''the''] (str ''The  Dogs & cats''))
   \<and> clean_text ascii_lower drop_s True [str ''the''] (str ''The  Dogs & cats'') = str ''dog cat''
   \<and> clean_text ascii_lower drop_s True [str ''the''] [] = []"
proof -
  have lower: "ascii_lower [] = []"
    by (simp add: ascii_lower_def)
  have "clean_text ascii_lower drop_s True [str ''the''] (str ''The  Dogs & cats'') = str ''dog cat''"
    by (simp add: eval_text)
  then show ?thesis
    using clean_text_charset [of ascii_lower True drop_s "[str ''the'']" "str ''The  Dogs & cats''" False,
        OF lower drop_s_in_class]
    by simp
qed

text \<open>
  C4.  Without stemming and without stopwords, cleaning a cleaned text changes nothing.
  What is assumed of \<open>str.lower\<close>: it leaves a string over \<open>a-z\<close>, \<open>0-9\<close>, \<open>?\<close>, \<open>!\<close> and
  the space as it is.
\<close>

theorem clean_text_idempotent:
  assumes "\<And>t. list_all clean_char t \<Longrightarrow> lower t = t"
  shows "clean_text lower stem False [] (clean_text lower stem False [] x) =
         clean_text lower stem False [] x"
  using lower_sub_strip_fixed [of lower x, OF assms]
  by (simp add: clean_text_def)

theorem clean_text_idempotent_witness:
  "clean_text ascii_lower drop_s False [] (str '' Hello,  World! '') = str ''hello world!''
   \<and> clean_text ascii_lower drop_s False [] (clean_text ascii_lower drop_s False [] (str '' Hello,  World! ''))
     = clean_text ascii_lower drop_s False [] (str '' Hello,  World! '')"
proof -
  have "clean_text ascii_lower drop_s False [] (str '' Hello,  World! '') = str ''hello world!''"
    by (simp add: eval_text)
  then show ?thesis
    using clean_text_idempotent [of ascii_lower drop_s "str '' Hello,  World! ''", OF ascii_lower_clean]
    by simp
qed

text \<open>
  C9.  \<open>SentimentPredictor.clean_text\<close> with its default \<open>do_stemming=False\<close>, which is
  how \<open>predict\<close> calls it, returns the string that \<open>CleanText.clean_text\<close> returns
  without stemming and with no stopwords, whatever the stemmer is: the lowercased
  text with the characters outside the class replaced, the whitespace collapsed and
  the ends stripped.
\<close>

theorem predictor_clean_text_refines:
  "predictor_clean_text lower text False = Inr (clean_text lower stem False [] text)
   \<and> clean_text lower stem False [] text = strip (sub_whitespace (sub_not_in_class (lower text)))"
  by (simp add: predictor_clean_text_def clean_text_def lower_sub_strip_def)

theorem predictor_clean_text_refines_witness:
  "predictor_clean_text ascii_lower (str ''Great  VIDEO, thanks!'') False = Inr (str ''great video thanks!'')
   \<and> clean_text ascii_lower drop_s False [] (str ''Great  VIDEO, thanks!'') = str ''great video thanks!''"
proof -
  have "clean_text ascii_lower drop_s False [] (str ''Great  VIDEO, thanks!'') = str ''great video thanks!''"
    by (simp add: eval_text)
  then show ?thesis
    using predictor_clean_text_refines [of ascii_lower "str ''Great  VIDEO, thanks!''" drop_s]
    by simp
qed

section \<open>The stopwords\<close>

lemma fold_remove:
  "fold (\<lambda>word stopwords. if word \<in> stopwords then stopwords - {word} else stopwords) ws S
   = S - set ws"
  by (induction ws arbitrary: S) auto

lemma Stopwords_nltk: "Stopwords corpus (str ''nltk'') = set corpus - set reserve"
  by (simp add: Stopwords_def fold_remove str_def)

text \<open>
  C7.  Whatever the corpus holds, the set built for \<open>nltk\<close> contains none of \<open>not\<close>,
  \<open>no\<close>, \<open>never\<close>, \<open>but\<close>, \<open>only\<close>, \<open>just\<close>, \<open>very\<close>, \<open>really\<close>, \<open>too\<close> and none of the
  contracted negations of \<open>reserve\<close>: it is the corpus without the words of \<open>reserve\<close>.
\<close>

theorem nltk_stopwords_exclude_reserve:
  "Stopwords corpus (str ''nltk'') = set corpus - set reserve
   \<and> set reserve \<inter> Stopwords corpus (str ''nltk'') = {}
   \<and> str ''not'' \<notin> Stopwords corpus (str ''nltk'')
   \<and> str ''no'' \<notin> Stopwords corpus (str ''nltk'')
   \<and> str ''never'' \<notin> Stopwords corpus (str ''nltk'')
   \<and> str ''but'' \<notin> Stopwords corpus (str ''nltk'')
   \<and> str ''only'' \<notin> Stopwords corpus (str ''nltk'')
   \<and> str ''just'' \<notin> Stopwords corpus (str ''nltk'')
   \<and> str ''very'' \<notin> Stopwords corpus (str ''nltk'')
   \<and> str ''really'' \<notin> Stopwords corpus (str ''nltk'')
   \<and> str ''too'' \<notin> Stopwords corpus (str ''nltk'')"
proof -
  have "str ''not'' \<in> set reserve" "str ''no'' \<in> set reserve" "str ''never'' \<in> set reserve"
    "str ''but'' \<in> set reserve" "str ''only'' \<in> set reserve" "str ''just'' \<in> set reserve"
    "str ''very'' \<in> set reserve" "str ''really'' \<in> set reserve" "str ''too'' \<in> set reserve"
    by (simp_all add: reserve_def)
  then show ?thesis
    by (auto simp: Stopwords_nltk)
qed

theorem nltk_stopwords_exclude_reserve_witness:
  "Stopwords [str ''the'', str ''not'', str ''a'', str ''no''] (str ''nltk'') = {str ''the'', str ''a''}"
proof -
  have "set [str ''the'', str ''not'', str ''a'', str ''no''] - set reserve = {str ''the'', str ''a''}"
    by (auto simp: reserve_def str_def)
  then show ?thesis
    using nltk_stopwords_exclude_reserve [of "[str ''the'', str ''not'', str ''a'', str ''no'']"]
    by simp
qed

section \<open>The prediction\<close>

lemma predict_str:
  "predict lower detect tokenizer model_product model_video w (PyStr s) =
     (if strip s = [] then (w, Inr None)
      else
        (let w1 = w\<lparr>draws := (if seed w = None then Suc (draws w) else draws w),
                    events := events w @ [Detect (seed w) s]\<rparr>
         in case detector_answer detect w s of
              DetectFail \<Rightarrow> (w1, Inr None)
            | Lang language \<Rightarrow>
                (if language \<noteq> str ''en'' then (w1, Inr None)
                 else
                   (let c = lower_sub_strip lower s;
                        inputs = tokenizer c (str ''pt'') True True 128;
                        w3 = w1\<lparr>events := events w1 @ [Tokenize c (str ''pt'') True True 128, InferProduct]\<rparr>
                    in case labels_at (model_product inputs) of
                         Inl e \<Rightarrow> (w3, Inl e)
                       | Inr sentiment_product \<Rightarrow>
                           (let w4 = w3\<lparr>events := events w3 @ [InferVideo]\<rparr>
                            in case labels_at (model_video inputs) of
                                 Inl e \<Rightarrow> (w4, Inl e)
                               | Inr sentiment_video \<Rightarrow>
                                   (w4, Inr (Some \<lparr>sentiment_for_product = sentiment_product,
                                                   sentiment_for_video = sentiment_video\<rparr>)))))))"
  by (simp add: predict_def get_language_def predictor_clean_text_def Let_def
      split: detect_outcome.splits sum.splits)

lemma labels_at_cases: "labels_at i = Inl IndexError \<or> (\<exists>l. labels_at i = Inr l)"
  by (simp add: labels_at_def)

text \<open>
  C2.  On a string, \<open>predict\<close> returns \<open>None\<close> exactly when the stripped string is
  empty, or the detector answers a language other than \<open>en\<close>, or the detector raises
  \<open>LangDetectException\<close>; in the last case no exception reaches the caller.
\<close>

theorem predict_absent_iff:
  "(snd (predict lower detect tokenizer model_product model_video w (PyStr s)) = Inr None \<longleftrightarrow>
      strip s = []
      \<or> (\<exists>code. detector_answer detect w s = Lang code \<and> code \<noteq> str ''en'')
      \<or> detector_answer detect w s = DetectFail)
   \<and> (detector_answer detect w s = DetectFail \<longrightarrow>
        snd (predict lower detect tokenizer model_product model_video w (PyStr s)) = Inr None)"
proof (cases "detector_answer detect w s")
  case DetectFail
  then show ?thesis by (simp add: predict_str Let_def)
next
  case (Lang code)
  show ?thesis
    using labels_at_cases [of "model_product (tokenizer (lower_sub_strip lower s) (str ''pt'') True True 128)"]
      labels_at_cases [of "model_video (tokenizer (lower_sub_strip lower s) (str ''pt'') True True 128)"]
    by (auto simp: predict_str Let_def Lang)
qed

theorem predict_absent_iff_witness:
  "snd (predict ascii_lower toy_detect toy_tokenizer toy_model toy_model fresh_world (PyStr (str ''?!''))) = Inr None
   \<and> detector_answer toy_detect fresh_world (str ''?!'') = DetectFail"
proof -
  have "detector_answer toy_detect fresh_world (str ''?!'') = DetectFail"
    by (simp add: detector_answer_def toy_detect_def fresh_world_def str_def is_letter_def)
  then show ?thesis
    using predict_absent_iff [of ascii_lower toy_detect toy_tokenizer toy_model toy_model fresh_world "str ''?!''"]
    by simp
qed

text \<open>
  C5.  \<open>predict\<close> raises \<open>TypeError\<close> exactly on a value that is no string, and then
  nothing has happened: the state is the one before the call, with no detector call,
  no tokenizer call and no model call in it, whatever these are.
\<close>

theorem predict_type_error_iff:
  "(snd (predict lower detect tokenizer model_product model_video w comment) = Inl TypeError
      \<longleftrightarrow> \<not> isinstance_str comment)
   \<and> (\<not> isinstance_str comment \<longrightarrow>
        predict lower detect tokenizer model_product model_video w comment = (w, Inl TypeError))"
proof (cases comment)
  case (PyStr s)
  show ?thesis
    using labels_at_cases [of "model_product (tokenizer (lower_sub_strip lower s) (str ''pt'') True True 128)"]
      labels_at_cases [of "model_video (tokenizer (lower_sub_strip lower s) (str ''pt'') True True 128)"]
    by (auto simp: PyStr predict_str Let_def split: detect_outcome.splits)
next
  case (PyInt n)
  then show ?thesis by (simp add: predict_def)
next
  case PyNone
  then show ?thesis by (simp add: predict_def)
qed

theorem predict_type_error_iff_witness:
  "\<not> isinstance_str (PyInt 42)
   \<and> predict ascii_lower toy_detect toy_tokenizer toy_model toy_model fresh_world (PyInt 42)
     = (fresh_world, Inl TypeError)"
  using predict_type_error_iff [of ascii_lower toy_detect toy_tokenizer toy_model toy_model fresh_world "PyInt 42"]
  by simp

text \<open>
  The calls \<open>predict\<close> makes on a string, in order: none when the stripped string is
  empty; otherwise the detector, and, when it answers \<open>en\<close>, the tokenizer on the cleaned
  text with \<open>return_tensors="pt"\<close>, \<open>truncation=True\<close>, \<open>padding=True\<close> and
  \<open>max_length=128\<close>, then the models.  What the tokenizer does with these arguments is
  the tokenizer's: the code passes them and nothing more.
\<close>

lemma predict_external_calls:
  "events (fst (predict lower detect tokenizer model_product model_video w (PyStr s))) =
     events w @
     (if strip s = [] then []
      else Detect (seed w) s #
        (if detector_answer detect w s = Lang (str ''en'')
         then [Tokenize (lower_sub_strip lower s) (str ''pt'') True True 128, InferProduct] @
              (if model_product (tokenizer (lower_sub_strip lower s) (str ''pt'') True True 128) < 3
               then [InferVideo] else [])
         else []))"
proof (cases "detector_answer detect w s")
  case DetectFail
  then show ?thesis by (simp add: predict_str Let_def)
next
  case (Lang code)
  show ?thesis
    using labels_at_cases [of "model_video (tokenizer (lower_sub_strip lower s) (str ''pt'') True True 128)"]
    by (auto simp: predict_str Let_def Lang labels_at_def labels_def split: sum.splits)
qed

text \<open>
  The tokenizer enters the result of \<open>predict\<close> through this one call only: two
  tokenizers that agree on the cleaned text with these arguments give the same result.
\<close>

lemma predict_tokenizer_arguments:
  assumes "tokenizer (lower_sub_strip lower s) (str ''pt'') True True 128
         = tokenizer' (lower_sub_strip lower s) (str ''pt'') True True 128"
  shows "predict lower detect tokenizer model_product model_video w (PyStr s)
       = predict lower detect tokenizer' model_product model_video w (PyStr s)"
  unfolding predict_str Let_def assms by (rule refl)

lemma predict_keeps_seed:
  "seed (fst (predict lower detect tokenizer model_product model_video w comment)) = seed w"
proof (cases comment)
  case (PyStr s)
  show ?thesis
    using labels_at_cases [of "model_product (tokenizer (lower_sub_strip lower s) (str ''pt'') True True 128)"]
      labels_at_cases [of "model_video (tokenizer (lower_sub_strip lower s) (str ''pt'') True True 128)"]
    by (auto simp: PyStr predict_str Let_def split: detect_outcome.splits)
next
  case (PyInt n)
  then show ?thesis by (simp add: predict_def)
next
  case PyNone
  then show ?thesis by (simp add: predict_def)
qed

section \<open>Removing the rows that are not English\<close>

lemma text_row_cells: "text_row r \<Longrightarrow> \<exists>t a b. snd r = [PyStr t, a, b]"
proof -
  assume tr: "text_row r"
  then obtain x a b where u: "unpack3 (snd r) = Inr (x, a, b)" and x: "isinstance_str x"
    by (auto simp: text_row_def split: sum.splits)
  from u have "snd r = [x, a, b]"
    by (auto simp: unpack3_def split: list.splits)
  moreover from x obtain t where "x = PyStr t"
    by (cases x) auto
  ultimately show ?thesis by blast
qed

lemma unpack3_three: "unpack3 [x, a, b] = Inr (x, a, b)"
  by (simp add: unpack3_def)

lemma unpack3_other: "length cells \<noteq> 3 \<Longrightarrow> unpack3 cells = Inl ValueError"
  by (auto simp: unpack3_def split: list.splits)

lemma collect_loop_seeded:
  assumes det: "seeded_deterministic detect"
  shows "seed w = Some 0 \<Longrightarrow> list_all text_row rs \<Longrightarrow>
    \<exists>w'. collect_loop detect w self rs =
      (w',
       self\<lparr>exception_entries := exception_entries self @
               map (\<lambda>r. (fst r, PyStr (row_text r))) (filter (undetectable detect) rs),
            other_language_entries := other_language_entries self @
               map (\<lambda>r. (fst r, PyStr (row_text r), code_of detect r)) (filter (other_language detect) rs)\<rparr>,
       None)
      \<and> seed w' = Some 0 \<and> stdout w' = stdout w"
proof (induction rs arbitrary: w self)
  case Nil
  then show ?case by simp
next
  case (Cons r rs)
  from Cons.prems(2) have tr: "text_row r" and rest: "list_all text_row rs"
    by simp_all
  from tr obtain t a b where cells: "snd r = [PyStr t, a, b]"
    using text_row_cells by blast
  have rt: "row_text r = t"
    by (simp add: row_text_def cells)
  let ?w1 = "w\<lparr>draws := draws w, events := events w @ [Detect (Some 0) t]\<rparr>"
  have w1: "seed ?w1 = Some 0" "stdout ?w1 = stdout w"
    using Cons.prems(1) by simp_all
  have answer: "detector_answer detect w t = row_language detect r"
    using det Cons.prems(1) by (simp add: detector_answer_def row_language_def rt seeded_deterministic_def)
  have gl: "get_language detect w (PyStr t) =
      (?w1, case row_language detect r of Lang code \<Rightarrow> Inr code | DetectFail \<Rightarrow> Inl LangDetectException)"
    using Cons.prems(1) by (simp add: get_language_def answer)
  show ?case
  proof (cases "row_language detect r")
    case DetectFail
    let ?self1 = "self\<lparr>exception_entries := exception_entries self @ [(fst r, PyStr t)]\<rparr>"
    have step: "collect_loop detect w self (r # rs) = collect_loop detect ?w1 ?self1 rs"
      by (simp add: cells unpack3_three gl DetectFail)
    from Cons.IH [OF w1(1) rest, of ?self1] obtain w' where
      ih: "collect_loop detect ?w1 ?self1 rs =
        (w',
         ?self1\<lparr>exception_entries := exception_entries ?self1 @
               map (\<lambda>r. (fst r, PyStr (row_text r))) (filter (undetectable detect) rs),
            other_language_entries := other_language_entries ?self1 @
               map (\<lambda>r. (fst r, PyStr (row_text r), code_of detect r)) (filter (other_language detect) rs)\<rparr>,
         None)"
      and w': "seed w' = Some 0" "stdout w' = stdout ?w1"
      by blast
    have "undetectable detect r" "\<not> other_language detect r"
      by (simp_all add: undetectable_def other_language_def DetectFail)
    then show ?thesis
      using step ih w' w1 by (simp add: rt)
  next
    case (Lang code)
    show ?thesis
    proof (cases "code = str ''en''")
      case True
      have step: "collect_loop detect w self (r # rs) = collect_loop detect ?w1 self rs"
        by (simp add: cells unpack3_three gl Lang True)
      from Cons.IH [OF w1(1) rest, of self] obtain w' where
        ih: "collect_loop detect ?w1 self rs =
          (w',
           self\<lparr>exception_entries := exception_entries self @
                 map (\<lambda>r. (fst r, PyStr (row_text r))) (filter (undetectable detect) rs),
              other_language_entries := other_language_entries self @
                 map (\<lambda>r. (fst r, PyStr (row_text r), code_of detect r)) (filter (other_language detect) rs)\<rparr>,
           None)"
        and w': "seed w' = Some 0" "stdout w' = stdout ?w1"
        by blast
      have "\<not> undetectable detect r" "\<not> other_language detect r"
        by (simp_all add: undetectable_def other_language_def Lang True)
      then show ?thesis
        using step ih w' w1 by simp
    next
      case False
      let ?self1 = "self\<lparr>other_language_entries := other_language_entries self @ [(fst r, PyStr t, code)]\<rparr>"
      have step: "collect_loop detect w self (r # rs) = collect_loop detect ?w1 ?self1 rs"
        by (simp add: cells unpack3_three gl Lang False)
      from Cons.IH [OF w1(1) rest, of ?self1] obtain w' where
        ih: "collect_loop detect ?w1 ?self1 rs =
          (w',
           ?self1\<lparr>exception_entries := exception_entries ?self1 @
                 map (\<lambda>r. (fst r, PyStr (row_text r))) (filter (undetectable detect) rs),
              other_language_entries := other_language_entries ?self1 @
                 map (\<lambda>r. (fst r, PyStr (row_text r), code_of detect r)) (filter (other_language detect) rs)\<rparr>,
           None)"
        and w': "seed w' = Some 0" "stdout w' = stdout ?w1"
        by blast
      have "\<not> undetectable detect r" "other_language detect r" "code_of detect r = code"
        by (simp_all add: undetectable_def other_language_def code_of_def Lang False)
      then show ?thesis
        using step ih w' w1 by (simp add: rt)
    qed
  qed
qed

lemma filter_labels:
  assumes "distinct (map fst rs)"
  shows "filter (\<lambda>r. fst r \<notin> set (map fst (filter P rs))) rs = filter (\<lambda>r. \<not> P r) rs"
proof (rule filter_cong [OF refl])
  fix r
  assume r: "r \<in> set rs"
  have inj: "inj_on fst (set rs)"
    using assms by (simp add: distinct_map)
  have "fst r \<in> set (map fst (filter P rs)) \<longleftrightarrow> P r"
  proof
    assume "fst r \<in> set (map fst (filter P rs))"
    then obtain r' where r': "r' \<in> set rs" "P r'" "fst r' = fst r"
      by auto
    with inj r have "r' = r"
      by (auto dest: inj_onD)
    with r' show "P r" by simp
  next
    assume "P r"
    with r show "fst r \<in> set (map fst (filter P rs))"
      by auto
  qed
  then show "(fst r \<notin> set (map fst (filter P rs))) = (\<not> P r)"
    by simp
qed

lemma language_cases:
  "english detect r \<or> undetectable detect r \<or> other_language detect r"
  by (cases "row_language detect r")
     (auto simp: english_def undetectable_def other_language_def)

lemma language_exclusive:
  "\<not> (english detect r \<and> undetectable detect r)"
  "\<not> (english detect r \<and> other_language detect r)"
  "\<not> (undetectable detect r \<and> other_language detect r)"
  by (auto simp: english_def undetectable_def other_language_def split: detect_outcome.splits)

lemma count_not_english:
  "length (filter (\<lambda>r. \<not> english detect r) rs) =
     length (filter (undetectable detect) rs) + length (filter (other_language detect) rs)"
proof (induction rs)
  case Nil
  show ?case by simp
next
  case (Cons r rs)
  then show ?case
    using language_cases [of detect r] language_exclusive [of detect r] by auto
qed

lemma count_english:
  "length (filter (english detect) rs) + length (filter (\<lambda>r. \<not> english detect r) rs) = length rs"
  by (rule sum_length_filter_compl)

lemma other_rows:
  "filter (other_language detect) (filter (\<lambda>r. \<not> undetectable detect r) rs)
     = filter (other_language detect) rs"
proof (induction rs)
  case Nil
  show ?case by simp
next
  case (Cons r rs)
  then show ?case
    using language_exclusive(3) [of detect r] by auto
qed

lemma not_other_not_undetectable:
  "filter (\<lambda>r. \<not> other_language detect r) (filter (\<lambda>r. \<not> undetectable detect r) rs)
     = filter (english detect) rs"
proof (induction rs)
  case Nil
  show ?case by simp
next
  case (Cons r rs)
  then show ?case
    using language_cases [of detect r] language_exclusive [of detect r] by auto
qed

lemma drop_labels_filter:
  assumes "distinct (map fst (rows d))"
  shows "drop_labels (map fst (filter P (rows d))) d =
         Inr (d\<lparr>rows := filter (\<lambda>r. \<not> P r) (rows d)\<rparr>)"
proof -
  have "list_all (\<lambda>l. l \<in> set (map fst (rows d))) (map fst (filter P (rows d)))"
    by (auto simp: list_all_iff)
  then have "drop_labels (map fst (filter P (rows d))) d =
      Inr (d\<lparr>rows := filter (\<lambda>r. fst r \<notin> set (map fst (filter P (rows d)))) (rows d)\<rparr>)"
    by (simp only: drop_labels_def if_True)
  then show ?thesis
    by (simp only: filter_labels [OF assms])
qed

lemma RemoveNonEnglish_result:
  assumes det: "seeded_deterministic detect"
    and uniq: "distinct (map fst (rows d))"
    and shape: "list_all text_row (rows d)"
  shows "\<exists>w1. RemoveNonEnglish detect w d =
    (w1\<lparr>stdout := stdout w @
        [NonLanguageEntries (length (filter (undetectable detect) (rows d))),
         OtherLanguageEntries (length (filter (other_language detect) (rows d))),
         SizeReduces (length (filter (english detect) (rows d))) (length (rows d))
           (int (length (filter (\<lambda>r. \<not> english detect r) (rows d))))]\<rparr>,
     \<lparr>exception_entries = map (\<lambda>r. (fst r, PyStr (row_text r))) (filter (undetectable detect) (rows d)),
      other_language_entries =
        map (\<lambda>r. (fst r, PyStr (row_text r), code_of detect r)) (filter (other_language detect) (rows d)),
      df = d\<lparr>rows := filter (english detect) (rows d)\<rparr>,
      original_size = length (rows d)\<rparr>,
     None)"
proof -
  let ?w0 = "w\<lparr>seed := Some 0\<rparr>"
  let ?self0 = "\<lparr>exception_entries = [], other_language_entries = [], df = d,
                 original_size = length (rows d)\<rparr>"
  let ?E = "map (\<lambda>r. (fst r, PyStr (row_text r))) (filter (undetectable detect) (rows d))"
  let ?O = "map (\<lambda>r. (fst r, PyStr (row_text r), code_of detect r)) (filter (other_language detect) (rows d))"
  let ?self1 = "\<lparr>exception_entries = ?E, other_language_entries = ?O, df = d,
                 original_size = length (rows d)\<rparr>"
  have "seed ?w0 = Some 0" by simp
  from collect_loop_seeded [OF det this shape, of ?self0] obtain w1 where
    loop: "collect_loop detect ?w0 ?self0 (rows d) = (w1, ?self1, None)"
    and out: "stdout w1 = stdout w"
    by auto
  let ?w2 = "w1\<lparr>stdout := stdout w @
      [NonLanguageEntries (length (filter (undetectable detect) (rows d))),
       OtherLanguageEntries (length (filter (other_language detect) (rows d)))]\<rparr>"
  have collect: "collect_non_english_content detect ?w0 ?self0 = (?w2, ?self1, None)"
    by (simp add: collect_non_english_content_def loop out)
  let ?d1 = "d\<lparr>rows := filter (\<lambda>r. \<not> undetectable detect r) (rows d)\<rparr>"
  let ?d2 = "d\<lparr>rows := filter (english detect) (rows d)\<rparr>"
  have drop1: "drop_labels (map fst (filter (undetectable detect) (rows d))) d = Inr ?d1"
    by (rule drop_labels_filter [OF uniq])
  have uniq1: "distinct (map fst (rows ?d1))"
    using uniq by (simp add: distinct_map_filter)
  have rows1: "rows ?d1 = filter (\<lambda>r. \<not> undetectable detect r) (rows d)"
    by simp
  have same: "?d1\<lparr>rows := filter (english detect) (rows d)\<rparr> = ?d2"
    by simp
  have "drop_labels (map fst (filter (other_language detect) (rows ?d1))) ?d1 =
      Inr (?d1\<lparr>rows := filter (\<lambda>r. \<not> other_language detect r) (rows ?d1)\<rparr>)"
    by (rule drop_labels_filter [OF uniq1])
  then have drop2: "drop_labels (map fst (filter (other_language detect) (rows d))) ?d1 = Inr ?d2"
    unfolding rows1 other_rows not_other_not_undetectable same .
  have num: "int (length (rows d)) - int (length (filter (english detect) (rows d)))
      = int (length (filter (\<lambda>r. \<not> english detect r) (rows d)))"
    using count_english [of detect "rows d"] by simp
  have "remove ?w2 ?self1 =
    (?w2\<lparr>stdout := stdout ?w2 @
        [SizeReduces (length (filter (english detect) (rows d))) (length (rows d))
           (int (length (filter (\<lambda>r. \<not> english detect r) (rows d))))]\<rparr>,
     ?self1\<lparr>df := ?d2\<rparr>, None)"
    by (simp add: remove_def comp_def drop1 drop2 num Let_def)
  then have "RemoveNonEnglish detect w d =
    (?w2\<lparr>stdout := stdout ?w2 @
        [SizeReduces (length (filter (english detect) (rows d))) (length (rows d))
           (int (length (filter (\<lambda>r. \<not> english detect r) (rows d))))]\<rparr>,
     ?self1\<lparr>df := ?d2\<rparr>, None)"
    by (simp add: RemoveNonEnglish_def collect Let_def)
  then have "RemoveNonEnglish detect w d =
    (w1\<lparr>stdout := stdout w @
        [NonLanguageEntries (length (filter (undetectable detect) (rows d))),
         OtherLanguageEntries (length (filter (other_language detect) (rows d))),
         SizeReduces (length (filter (english detect) (rows d))) (length (rows d))
           (int (length (filter (\<lambda>r. \<not> english detect r) (rows d))))]\<rparr>,
     \<lparr>exception_entries = ?E, other_language_entries = ?O, df = ?d2,
      original_size = length (rows d)\<rparr>,
     None)"
    by simp
  then show ?thesis by blast
qed

lemma toy_detect_seeded: "seeded_deterministic toy_detect"
  by (simp add: seeded_deterministic_def toy_detect_def)

lemmas eval_frame =
  example_frame_def text_row_def unpack3_def english_def undetectable_def other_language_def
  row_language_def row_text_def toy_detect_def is_letter_def str_def

text \<open>
  C1, as the code has it.  On a frame with distinct row labels whose rows are three values with a string
  first, and with a detector that is deterministic once seeded, the constructor of
  \<open>RemoveNonEnglish\<close> raises nothing and leaves in the frame exactly the rows whose
  text the detector answers \<open>en\<close> for, in their order and with their labels: \<open>N - K\<close>
  rows, where \<open>K\<close> rows are not answered \<open>en\<close>.  It prints the number of undetectable
  rows, the number of rows in another language, the new size, the old size and the
  number removed, which is \<open>K\<close>, the sum of the first two.
\<close>

theorem remove_non_english_counts:
  assumes "seeded_deterministic detect"
    and "distinct (map fst (rows d))"
    and "list_all text_row (rows d)"
  shows "snd (snd (RemoveNonEnglish detect w d)) = None
    \<and> rows (df (fst (snd (RemoveNonEnglish detect w d)))) = filter (english detect) (rows d)
    \<and> columns (df (fst (snd (RemoveNonEnglish detect w d)))) = columns d
    \<and> length (rows (df (fst (snd (RemoveNonEnglish detect w d)))))
        + length (filter (\<lambda>r. \<not> english detect r) (rows d)) = length (rows d)
    \<and> length (filter (\<lambda>r. \<not> english detect r) (rows d))
        = length (filter (undetectable detect) (rows d)) + length (filter (other_language detect) (rows d))
    \<and> stdout (fst (RemoveNonEnglish detect w d)) = stdout w @
        [NonLanguageEntries (length (filter (undetectable detect) (rows d))),
         OtherLanguageEntries (length (filter (other_language detect) (rows d))),
         SizeReduces (length (filter (english detect) (rows d))) (length (rows d))
           (int (length (filter (\<lambda>r. \<not> english detect r) (rows d))))]"
proof -
  from RemoveNonEnglish_result [OF assms, of w] obtain w1 where
    "RemoveNonEnglish detect w d =
    (w1\<lparr>stdout := stdout w @
        [NonLanguageEntries (length (filter (undetectable detect) (rows d))),
         OtherLanguageEntries (length (filter (other_language detect) (rows d))),
         SizeReduces (length (filter (english detect) (rows d))) (length (rows d))
           (int (length (filter (\<lambda>r. \<not> english detect r) (rows d))))]\<rparr>,
     \<lparr>exception_entries = map (\<lambda>r. (fst r, PyStr (row_text r))) (filter (undetectable detect) (rows d)),
      other_language_entries =
        map (\<lambda>r. (fst r, PyStr (row_text r), code_of detect r)) (filter (other_language detect) (rows d)),
      df = d\<lparr>rows := filter (english detect) (rows d)\<rparr>,
      original_size = length (rows d)\<rparr>,
     None)"
    by blast
  then show ?thesis
    using count_english [of detect "rows d"] count_not_english [of detect "rows d"]
    by simp
qed

theorem remove_non_english_counts_witness:
  "rows (df (fst (snd (RemoveNonEnglish toy_detect fresh_world example_frame))))
     = [(0, [PyStr (str ''This product is amazing!''), PyInt 2, PyInt 1])]
   \<and> stdout (fst (RemoveNonEnglish toy_detect fresh_world example_frame))
     = [NonLanguageEntries 1, OtherLanguageEntries 1, SizeReduces 1 3 2]
   \<and> snd (snd (RemoveNonEnglish toy_detect fresh_world example_frame)) = None"
proof -
  have uniq: "distinct (map fst (rows example_frame))"
    by (simp add: example_frame_def)
  have shape: "list_all text_row (rows example_frame)"
    by (simp add: eval_frame)
  have kept: "filter (english toy_detect) (rows example_frame)
      = [(0, [PyStr (str ''This product is amazing!''), PyInt 2, PyInt 1])]"
    by (simp add: eval_frame)
  have gone: "length (filter (\<lambda>r. \<not> english toy_detect r) (rows example_frame)) = 2"
    by (simp add: eval_frame)
  have failed: "length (filter (undetectable toy_detect) (rows example_frame)) = 1"
    by (simp add: eval_frame)
  have other: "length (filter (other_language toy_detect) (rows example_frame)) = 1"
    by (simp add: eval_frame)
  have size: "length (rows example_frame) = 3"
    by (simp add: example_frame_def)
  have out: "stdout fresh_world = []"
    by (simp add: fresh_world_def)
  show ?thesis
    using remove_non_english_counts [OF toy_detect_seeded uniq shape, of fresh_world]
    by (simp add: kept gone failed other size out)
qed

text \<open>
  C1 as it is stated, for every frame with distinct labels, fails where the rows are not
  three values with a string first.  On a frame of two columns with an English and an
  undetectable row the constructor raises \<open>ValueError\<close> at the first row; on a frame of
  three columns whose second row has no text it raises \<open>TypeError\<close> at that row.  In
  both the frame keeps all its rows and nothing is printed.
\<close>

theorem remove_non_english_counterexample:
  "distinct (map fst (rows two_column_reviews))
   \<and> length (rows two_column_reviews) = 2
   \<and> length (filter (undetectable toy_detect) (rows two_column_reviews)) = 1
   \<and> snd (snd (RemoveNonEnglish toy_detect fresh_world two_column_reviews)) = Some ValueError
   \<and> df (fst (snd (RemoveNonEnglish toy_detect fresh_world two_column_reviews))) = two_column_reviews
   \<and> stdout (fst (RemoveNonEnglish toy_detect fresh_world two_column_reviews)) = []
   \<and> distinct (map fst (rows missing_text_frame))
   \<and> snd (snd (RemoveNonEnglish toy_detect fresh_world missing_text_frame)) = Some TypeError
   \<and> df (fst (snd (RemoveNonEnglish toy_detect fresh_world missing_text_frame))) = missing_text_frame
   \<and> stdout (fst (RemoveNonEnglish toy_detect fresh_world missing_text_frame)) = []"
  by (simp add: two_column_reviews_def missing_text_frame_def fresh_world_def RemoveNonEnglish_def
      collect_non_english_content_def get_language_def detector_answer_def unpack3_def
      undetectable_def row_language_def row_text_def toy_detect_def is_letter_def str_def Let_def)

section \<open>The shape of the frame\<close>

lemma clean_df_first_row:
  assumes "rows d = r # rs" and "unpack3 (snd r) = Inl e"
  shows "clean_df lower stem do_stemming stopwords d = (d, Some e)"
proof -
  have "0 < length (rows d)"
    by (simp add: assms(1))
  then have positions: "[0..<length (rows d)] = 0 # [Suc 0..<length (rows d)]"
    by (rule upt_conv_Cons)
  have "clean_df_loop lower stem do_stemming stopwords d (0 # [Suc 0..<length (rows d)]) = (d, Some e)"
    by (simp add: assms)
  then show ?thesis
    by (simp only: clean_df_def positions)
qed

text \<open>
  C10, as the code has it.  On a frame that has a row, and whose rows do not have three
  values, \<open>clean_df\<close> and the constructor of \<open>RemoveNonEnglish\<close> raise \<open>ValueError\<close> at
  the first row: the frame is unchanged, no text has been cleaned, the detector has not
  been called and nothing is printed; the constructor has only set the seed.  So on a
  frame that has a row they succeed only if the rows have three values.  On a frame
  without rows neither raises anything, whatever its columns are.
\<close>

theorem column_shape_failure:
  assumes "well_formed d"
  shows "(rows d \<noteq> [] \<and> length (columns d) \<noteq> 3 \<longrightarrow>
            clean_df lower stem do_stemming stopwords d = (d, Some ValueError)
          \<and> RemoveNonEnglish detect w d =
              (w\<lparr>seed := Some 0\<rparr>,
               \<lparr>exception_entries = [], other_language_entries = [], df = d,
                original_size = length (rows d)\<rparr>,
               Some ValueError))
    \<and> (rows d \<noteq> [] \<and>
         (snd (clean_df lower stem do_stemming stopwords d) = None
          \<or> snd (snd (RemoveNonEnglish detect w d)) = None) \<longrightarrow>
            length (columns d) = 3)
    \<and> (rows d = [] \<longrightarrow>
            clean_df lower stem do_stemming stopwords d = (d, None)
          \<and> snd (snd (RemoveNonEnglish detect w d)) = None
          \<and> rows (df (fst (snd (RemoveNonEnglish detect w d)))) = []
          \<and> columns (df (fst (snd (RemoveNonEnglish detect w d)))) = columns d)"
proof -
  have fails: "clean_df lower stem do_stemming stopwords d = (d, Some ValueError)
      \<and> RemoveNonEnglish detect w d =
          (w\<lparr>seed := Some 0\<rparr>,
           \<lparr>exception_entries = [], other_language_entries = [], df = d,
            original_size = length (rows d)\<rparr>,
           Some ValueError)"
    if nonempty: "rows d \<noteq> []" and shape: "length (columns d) \<noteq> 3"
  proof -
    from nonempty obtain r rs where rows: "rows d = r # rs"
      by (cases "rows d") auto
    with assms shape have "length (snd r) \<noteq> 3"
      by (simp add: well_formed_def)
    then have unpack: "unpack3 (snd r) = Inl ValueError"
      by (rule unpack3_other)
    have "clean_df lower stem do_stemming stopwords d = (d, Some ValueError)"
      using rows unpack by (rule clean_df_first_row)
    moreover have "RemoveNonEnglish detect w d =
          (w\<lparr>seed := Some 0\<rparr>,
           \<lparr>exception_entries = [], other_language_entries = [], df = d,
            original_size = length (rows d)\<rparr>,
           Some ValueError)"
      using unpack by (simp add: RemoveNonEnglish_def collect_non_english_content_def rows Let_def)
    ultimately show ?thesis by simp
  qed
  have empty: "clean_df lower stem do_stemming stopwords d = (d, None)
      \<and> snd (snd (RemoveNonEnglish detect w d)) = None
      \<and> rows (df (fst (snd (RemoveNonEnglish detect w d)))) = []
      \<and> columns (df (fst (snd (RemoveNonEnglish detect w d)))) = columns d"
    if "rows d = []"
    using that
    by (simp add: clean_df_def RemoveNonEnglish_def collect_non_english_content_def remove_def
        drop_labels_def Let_def)
  have only: "length (columns d) = 3"
    if nonempty: "rows d \<noteq> []"
      and passes: "snd (clean_df lower stem do_stemming stopwords d) = None
        \<or> snd (snd (RemoveNonEnglish detect w d)) = None"
  proof (rule ccontr)
    assume "length (columns d) \<noteq> 3"
    from fails [OF nonempty this] passes show False
      by simp
  qed
  from fails only empty show ?thesis
    by blast
qed

theorem column_shape_failure_witness:
  "well_formed two_column_frame \<and> rows two_column_frame \<noteq> [] \<and> length (columns two_column_frame) \<noteq> 3
   \<and> clean_df ascii_lower drop_s False [] two_column_frame = (two_column_frame, Some ValueError)
   \<and> snd (snd (RemoveNonEnglish toy_detect fresh_world two_column_frame)) = Some ValueError
   \<and> events (fst (RemoveNonEnglish toy_detect fresh_world two_column_frame)) = []
   \<and> well_formed empty_two_column_frame \<and> rows empty_two_column_frame = []
   \<and> clean_df ascii_lower drop_s False [] empty_two_column_frame = (empty_two_column_frame, None)
   \<and> snd (snd (RemoveNonEnglish toy_detect fresh_world empty_two_column_frame)) = None"
proof -
  have a: "well_formed two_column_frame"
    by (simp add: well_formed_def two_column_frame_def)
  have b: "rows two_column_frame \<noteq> []"
    by (simp add: two_column_frame_def)
  have c: "length (columns two_column_frame) \<noteq> 3"
    by (simp add: two_column_frame_def)
  have a': "well_formed empty_two_column_frame"
    by (simp add: well_formed_def empty_two_column_frame_def)
  have b': "rows empty_two_column_frame = []"
    by (simp add: empty_two_column_frame_def)
  show ?thesis
    using a b c a' b'
      column_shape_failure [OF a, of ascii_lower drop_s False "[]" toy_detect fresh_world]
      column_shape_failure [OF a', of ascii_lower drop_s False "[]" toy_detect fresh_world]
    by (simp add: fresh_world_def)
qed

text \<open>
  C10 as it is stated fails twice.  On a frame of two columns and no row neither
  \<open>clean_df\<close> nor the constructor of \<open>RemoveNonEnglish\<close> raises anything, since no tuple
  is ever unpacked.  And on a frame of three columns whose text column is the second,
  both succeed as well: they take the first value of the row for the text, the
  constructor keeps the row on the strength of it, and \<open>clean_df\<close> stores the cleaned
  first value in the text column.
\<close>

theorem column_shape_counterexample:
  "length (columns empty_two_column_frame) = 2
   \<and> well_formed empty_two_column_frame
   \<and> clean_df ascii_lower drop_s False [] empty_two_column_frame = (empty_two_column_frame, None)
   \<and> snd (snd (RemoveNonEnglish toy_detect fresh_world empty_two_column_frame)) = None
   \<and> well_formed text_second_frame
   \<and> position (str ''text'') (columns text_second_frame) = Some 1
   \<and> snd (clean_df ascii_lower drop_s False [] text_second_frame) = None
   \<and> rows (fst (clean_df ascii_lower drop_s False [] text_second_frame))
       = [(0, [PyStr (str ''Positive''), PyStr (str ''positive''), PyInt 1])]
   \<and> snd (snd (RemoveNonEnglish toy_detect fresh_world text_second_frame)) = None
   \<and> rows (df (fst (snd (RemoveNonEnglish toy_detect fresh_world text_second_frame))))
       = rows text_second_frame"
proof -
  have empty: "length (columns empty_two_column_frame) = 2
     \<and> well_formed empty_two_column_frame
     \<and> clean_df ascii_lower drop_s False [] empty_two_column_frame = (empty_two_column_frame, None)
     \<and> snd (snd (RemoveNonEnglish toy_detect fresh_world empty_two_column_frame)) = None"
    by (simp add: empty_two_column_frame_def well_formed_def clean_df_def RemoveNonEnglish_def
        collect_non_english_content_def remove_def drop_labels_def Let_def)
  have wf: "well_formed text_second_frame"
    by (simp add: well_formed_def text_second_frame_def)
  have pos: "position (str ''text'') (columns text_second_frame) = Some 1"
    by (simp add: text_second_frame_def str_def)
  have cleaned: "clean_text ascii_lower drop_s False [] (str ''Positive'') = str ''positive''"
    by (simp add: eval_text)
  have clean: "clean_df ascii_lower drop_s False [] text_second_frame =
      (text_second_frame\<lparr>rows := [(0, [PyStr (str ''Positive''), PyStr (str ''positive''), PyInt 1])]\<rparr>,
       None)"
    using pos
    by (simp add: clean_df_def text_second_frame_def unpack3_def set_text_def cleaned)
  have remove: "snd (snd (RemoveNonEnglish toy_detect fresh_world text_second_frame)) = None
     \<and> rows (df (fst (snd (RemoveNonEnglish toy_detect fresh_world text_second_frame))))
         = rows text_second_frame"
    by (simp add: text_second_frame_def fresh_world_def RemoveNonEnglish_def
        collect_non_english_content_def get_language_def detector_answer_def unpack3_def
        remove_def drop_labels_def toy_detect_def is_letter_def str_def Let_def)
  from empty wf pos clean remove show ?thesis
    by simp
qed

section \<open>The seed of the detector\<close>

text \<open>
  The constructor of \<open>RemoveNonEnglish\<close> sets the seed before it detects anything, so
  with a detector that is deterministic once seeded the object it builds does not depend
  on the state of the process before the call.
\<close>

lemma RemoveNonEnglish_deterministic:
  assumes "seeded_deterministic detect"
    and "distinct (map fst (rows d))"
    and "list_all text_row (rows d)"
  shows "fst (snd (RemoveNonEnglish detect w d)) = fst (snd (RemoveNonEnglish detect w' d))"
  using RemoveNonEnglish_result [OF assms, of w] RemoveNonEnglish_result [OF assms, of w']
  by auto

text \<open>
  C6, where the code departs from it.  \<open>predict\<close> hands the detector the seed it finds
  and leaves it as it is; nothing in the module of the predictor assigns
  \<open>DetectorFactory.seed\<close>, so in a fresh process the seed is \<open>None\<close> and the detector
  reads the random source.  Whenever the unseeded detector answers \<open>en\<close> for a comment
  under one reading of the random source and another language under another reading,
  \<open>predict\<close> returns a result for the first and \<open>None\<close> for the second: two calls on the
  same comment disagree.
\<close>

theorem predict_unseeded_follows_random_source:
  assumes "seed w = None" and "seed w' = None"
    and "strip s \<noteq> []"
    and "detect None (entropy w (draws w)) s = Lang (str ''en'')"
    and "detect None (entropy w' (draws w')) s = Lang code"
    and "code \<noteq> str ''en''"
  shows "snd (predict lower detect tokenizer model_product model_video w (PyStr s)) \<noteq> Inr None
    \<and> snd (predict lower detect tokenizer model_product model_video w' (PyStr s)) = Inr None
    \<and> seed (fst (predict lower detect tokenizer model_product model_video w (PyStr s))) = None
    \<and> seed (fst (predict lower detect tokenizer model_product model_video w' (PyStr s))) = None"
proof -
  have en: "detector_answer detect w s = Lang (str ''en'')"
    using assms(1,4) by (simp add: detector_answer_def)
  have other: "detector_answer detect w' s = Lang code"
    using assms(2,5) by (simp add: detector_answer_def)
  have 1: "snd (predict lower detect tokenizer model_product model_video w (PyStr s)) \<noteq> Inr None"
    using labels_at_cases [of "model_product (tokenizer (lower_sub_strip lower s) (str ''pt'') True True 128)"]
      labels_at_cases [of "model_video (tokenizer (lower_sub_strip lower s) (str ''pt'') True True 128)"]
      assms(3)
    by (auto simp: predict_str Let_def en)
  have 2: "snd (predict lower detect tokenizer model_product model_video w' (PyStr s)) = Inr None"
    using assms(3,6) by (simp add: predict_str Let_def other)
  from 1 2 show ?thesis
    by (simp add: predict_keeps_seed assms(1,2))
qed

theorem predict_unseeded_follows_random_source_witness:
  "seeded_deterministic toy_detect
   \<and> seed fresh_world = None
   \<and> snd (predict ascii_lower toy_detect toy_tokenizer toy_model toy_model fresh_world
        (PyStr (str ''me too''))) \<noteq> Inr None
   \<and> snd (predict ascii_lower toy_detect toy_tokenizer toy_model toy_model
        (fresh_world\<lparr>entropy := Suc\<rparr>) (PyStr (str ''me too''))) = Inr None"
proof -
  have a: "seed fresh_world = None" "seed (fresh_world\<lparr>entropy := Suc\<rparr>) = None"
    by (simp_all add: fresh_world_def)
  have b: "strip (str ''me too'') \<noteq> []"
    by (simp add: eval_text)
  have c: "toy_detect None (entropy fresh_world (draws fresh_world)) (str ''me too'') = Lang (str ''en'')"
    by (simp add: toy_detect_def fresh_world_def is_letter_def str_def)
  have d: "toy_detect None (entropy (fresh_world\<lparr>entropy := Suc\<rparr>) (draws (fresh_world\<lparr>entropy := Suc\<rparr>)))
      (str ''me too'') = Lang (str ''nl'')"
    by (simp add: toy_detect_def fresh_world_def is_letter_def str_def)
  have e: "str ''nl'' \<noteq> str ''en''"
    by (simp add: str_def)
  show ?thesis
    using predict_unseeded_follows_random_source
        [where w = fresh_world and w' = "fresh_world\<lparr>entropy := Suc\<rparr>" and s = "str ''me too''"
           and detect = toy_detect and code = "str ''nl''" and lower = ascii_lower
           and tokenizer = toy_tokenizer and model_product = toy_model and model_video = toy_model,
         OF a b c d e]
      toy_detect_seeded a(1)
    by simp
qed

end
